theory Spec2Isabelle
  imports Main "HOL-Library.AList"
begin

section \<open>JavaScript values\<close>

text \<open>
  The dashboard component of \<^verbatim>\<open>odoo_shopify_automation/static/src/js/dashboard.js\<close>
  handles values that come out of \<^verbatim>\<open>JSON.parse\<close> and objects it builds itself.
  A value is one of the JSON shapes, or \<^verbatim>\<open>undefined\<close>, which is what reading a
  property that is not there gives. An object is the list of its own properties in
  insertion order.

  The component does two things with a number it received: it prints it (in a template
  literal) and it compares it with \<^verbatim>\<open>===\<close>. A number is therefore kept as the text
  JavaScript prints for it, \<^verbatim>\<open>42\<close>, \<^verbatim>\<open>19.99\<close> or \<^verbatim>\<open>1e+21\<close>: two numbers of a frame are
  \<^verbatim>\<open>===\<close> exactly when they print alike (\<^verbatim>\<open>-0\<close> prints as \<^verbatim>\<open>0\<close> and equals it, and JSON has
  no NaN).
\<close>

datatype jsval =
    Undefined
  | Null
  | Bool bool
  | Num string
  | Str string
  | Arr "jsval list"
  | Obj "(string \<times> jsval) list"

type_synonym obj = "(string \<times> jsval) list"

datatype exn = TypeError | SyntaxError | RpcError

text \<open>Reading \<^verbatim>\<open>o.k\<close> on an object: the first own property of that name, else undefined.\<close>

fun get :: "obj \<Rightarrow> string \<Rightarrow> jsval" where
  "get [] k = Undefined"
| "get ((k', v) # kvs) k = (if k' = k then v else get kvs k)"

text \<open>
  Writing \<^verbatim>\<open>k: v\<close> in an object literal after a spread: an existing property keeps its
  place and takes the new value, a new one goes to the end.
\<close>

fun put :: "string \<Rightarrow> jsval \<Rightarrow> obj \<Rightarrow> obj" where
  "put k v [] = [(k, v)]"
| "put k v ((k', v') # kvs) = (if k' = k then (k, v) # kvs else (k', v') # put k v kvs)"

text \<open>
  Reading \<^verbatim>\<open>x.k\<close> on any value: a TypeError on \<^verbatim>\<open>undefined\<close> and \<^verbatim>\<open>null\<close>, the own
  property on an object, and undefined on the other shapes (none of the names this
  program reads from a payload, \<^verbatim>\<open>type\<close>, \<^verbatim>\<open>payload\<close>, \<^verbatim>\<open>order_number\<close>, \<^verbatim>\<open>name\<close>,
  \<^verbatim>\<open>message\<close>, \<^verbatim>\<open>amount\<close>, is inherited by a number, a string, a boolean or an array).
\<close>

fun getprop :: "jsval \<Rightarrow> string \<Rightarrow> exn + jsval" where
  "getprop Undefined k = Inl TypeError"
| "getprop Null k = Inl TypeError"
| "getprop (Obj kvs) k = Inr (get kvs k)"
| "getprop v k = Inr Undefined"

text \<open>
  Strict equality \<^verbatim>\<open>===\<close>. Primitives compare by value. Arrays and objects compare by
  reference; the only use of \<^verbatim>\<open>===\<close> on such operands here is between the \<^verbatim>\<open>id\<close> of a
  queue entry, which \<^verbatim>\<open>addNotification\<close> always sets to a number, and a caller's value,
  so two references are never the same one.
\<close>

fun strict_eq :: "jsval \<Rightarrow> jsval \<Rightarrow> bool" where
  "strict_eq Undefined Undefined = True"
| "strict_eq Null Null = True"
| "strict_eq (Bool a) (Bool b) = (a = b)"
| "strict_eq (Num a) (Num b) = (a = b)"
| "strict_eq (Str a) (Str b) = (a = b)"
| "strict_eq v w = False"

text \<open>
  Decimal digits of a natural number, and the text of an integer. This is how JavaScript
  prints a whole number of fewer than 22 digits; the only numbers printed this way here
  are readings of \<^verbatim>\<open>Date.now()\<close>, which stay within 8.64e15.
\<close>

fun digits :: "nat \<Rightarrow> string" where
  "digits n = (if n < 10 then [''0123456789'' ! n]
               else digits (n div 10) @ [''0123456789'' ! (n mod 10)])"

definition show_int :: "int \<Rightarrow> string" where
  "show_int i = (if i < 0 then CHR ''-'' # digits (nat (- i)) else digits (nat i))"

fun join :: "string \<Rightarrow> string list \<Rightarrow> string" where
  "join sep [] = []"
| "join sep [x] = x"
| "join sep (x # y # ys) = x @ sep @ join sep (y # ys)"

text \<open>The results of a list of conversions, up to the first that throws.\<close>

fun collect :: "(exn + 'a) list \<Rightarrow> exn + 'a list" where
  "collect [] = Inr []"
| "collect (Inl e # rs) = Inl e"
| "collect (Inr x # rs) = (case collect rs of Inl e \<Rightarrow> Inl e | Inr xs \<Rightarrow> Inr (x # xs))"

text \<open>
  The text a template literal \<^verbatim>\<open>`...${v}...`\<close> splices in for a value. An array is its
  elements joined by commas, with \<^verbatim>\<open>null\<close> and \<^verbatim>\<open>undefined\<close> elements empty. An object
  prints as \<^verbatim>\<open>[object Object]\<close> through the \<^verbatim>\<open>toString\<close> it inherits; an object with a
  property of its own called \<^verbatim>\<open>toString\<close> (which, coming from JSON, is no function) has
  no way to become a string, and the conversion throws a TypeError.
\<close>

fun toString :: "jsval \<Rightarrow> exn + string" where
  "toString Undefined = Inr ''undefined''"
| "toString Null = Inr ''null''"
| "toString (Bool b) = Inr (if b then ''true'' else ''false'')"
| "toString (Num t) = Inr t"
| "toString (Str s) = Inr s"
| "toString (Arr xs) =
     (case collect (map (\<lambda>x. if x = Undefined \<or> x = Null then Inr [] else toString x) xs) of
        Inl e \<Rightarrow> Inl e
      | Inr ts \<Rightarrow> Inr (join '','' ts))"
| "toString (Obj kvs) =
     (if ''toString'' \<in> set (map fst kvs) then Inl TypeError else Inr ''[object Object]'')"

section \<open>The component and its surroundings\<close>

text \<open>
  A reading of the clock for one synchronous call: \<^verbatim>\<open>Date.now()\<close>, a whole number of
  milliseconds, and what \<^verbatim>\<open>toLocaleTimeString()\<close> prints for it in the browser's locale.
\<close>

record clock =
  now :: int
  timeLabel :: string

text \<open>
  A counter of the snapshot (\<^verbatim>\<open>order_count\<close>, \<^verbatim>\<open>customer_count\<close>, \<^verbatim>\<open>error_count\<close>):
  missing from the object, a whole number (one that a double holds), or NaN.

  \<^verbatim>\<open>x++\<close> on a missing property stores NaN. On a number it adds 1 in double arithmetic:
  exactly, from -9007199254740992 up to but not including 9007199254740992 (2 to the
  53); where the doubles are 2 apart the sum lies halfway between two of them and goes to
  the one with the even significand; where they are further apart the number stays what
  it was.
\<close>

datatype count = Absent | Count int | NaN

definition plus_one :: "int \<Rightarrow> int" where
  "plus_one n =
     (if - 9007199254740992 \<le> n \<and> n < 9007199254740992 then n + 1
      else if (9007199254740992 \<le> n \<and> n < 18014398509481984)
            \<or> (- 18014398509481984 < n \<and> n < - 9007199254740992)
        then (if even (n div 2) then n else n + 2)
      else n)"

fun incr :: "count \<Rightarrow> count" where
  "incr Absent = NaN"
| "incr (Count n) = Count (plus_one n)"
| "incr NaN = NaN"

text \<open>
  The object \<^verbatim>\<open>get_dashboard_data\<close> answers with, as far as the component reads it: the
  three counters, the sales series (labels and values) and the three distributions. A
  field is \<open>None\<close> where the component's truthiness test on it fails.

  \<^verbatim>\<open>updateCharts\<close> hands the snapshot's arrays to the chart, so that a later push on the
  chart is a push on the arrays inside \<^verbatim>\<open>realTimeData\<close> too. The series is read from the
  chart here; the component never reads it back from \<^verbatim>\<open>realTimeData\<close>, and the
  properties below say nothing about \<^verbatim>\<open>sales_chart_data\<close> after an append.
\<close>

record snapshot =
  order_count :: count
  customer_count :: count
  error_count :: count
  sales_chart_data :: "(jsval list \<times> jsval list) option"
  revenue_distribution :: "jsval list option"
  customer_growth :: "jsval list option"
  inventory_status :: "jsval list option"

text \<open>
  A Chart.js instance, as far as the component touches it: \<^verbatim>\<open>data.labels\<close> and
  \<^verbatim>\<open>data.datasets[0].data\<close>. Drawing (\<^verbatim>\<open>update('none')\<close>) is the library's business.
\<close>

record chart =
  labels :: "jsval list"
  data :: "jsval list"

text \<open>What a pending timer runs when it fires.\<close>

datatype callback =
    RemoveNotification obj  \<comment> \<open>\<^verbatim>\<open>() => this.removeNotification(notification.id)\<close>, with the captured argument\<close>
  | SetupWebSocket          \<comment> \<open>\<^verbatim>\<open>() => this.setupWebSocket()\<close>\<close>
  | LoadDashboardData       \<comment> \<open>\<^verbatim>\<open>() => { this.loadDashboardData(); }\<close>\<close>

datatype readyState = CONNECTING | OPEN | CLOSED

datatype level = Info | Error

text \<open>
  The component's own fields (\<^verbatim>\<open>this.state\<close>, \<^verbatim>\<open>this.chartInstances\<close>,
  \<^verbatim>\<open>this.updateInterval\<close>) and what it reaches in the browser: the pending
  \<^verbatim>\<open>setTimeout\<close> timers (handle, due time, callback), the running \<^verbatim>\<open>setInterval\<close> timers
  (handle, period, callback), both looked up by handle, the WebSocket objects created so
  far, the calls made to the framework's notification service (message and type), the
  console, the ids of the elements in the document, the number of \<^verbatim>\<open>.o_health_value\<close>
  elements in it, and the number of \<^verbatim>\<open>get_dashboard_data\<close> calls in flight.
\<close>

record dashboard =
  loading :: bool
  realTimeData :: snapshot
  chartData :: obj
  notifications :: "obj list"
  systemHealth :: jsval
  chartInstances :: "(string \<times> chart) list"
  updateInterval :: "nat option"
  timeouts :: "(nat \<times> int \<times> callback) list"
  intervals :: "(nat \<times> int \<times> callback) list"
  next_handle :: nat
  sockets :: "readyState list"
  service_notifications :: "(string \<times> string) list"
  console :: "(level \<times> string) list"
  document_ids :: "string list"
  health_elements :: nat
  in_flight :: nat

text \<open>A call either returns or throws; either way the state it leaves is the state.\<close>

datatype completion = Returns dashboard | Throws exn dashboard

fun state_of :: "completion \<Rightarrow> dashboard" where
  "state_of (Returns s) = s"
| "state_of (Throws e s) = s"

fun and_then :: "completion \<Rightarrow> (dashboard \<Rightarrow> completion) \<Rightarrow> completion" where
  "and_then (Returns s) f = f s"
| "and_then (Throws e s) f = Throws e s"

text \<open>\<^verbatim>\<open>setTimeout(cb, ms)\<close> and \<^verbatim>\<open>setInterval(cb, ms)\<close>: a fresh positive handle.\<close>

definition setTimeout :: "callback \<Rightarrow> int \<Rightarrow> clock \<Rightarrow> dashboard \<Rightarrow> dashboard" where
  "setTimeout cb ms clk s =
     s\<lparr>timeouts := timeouts s @ [(next_handle s, now clk + ms, cb)],
       next_handle := Suc (next_handle s)\<rparr>"

definition setInterval :: "callback \<Rightarrow> int \<Rightarrow> dashboard \<Rightarrow> nat \<times> dashboard" where
  "setInterval cb ms s =
     (next_handle s,
      s\<lparr>intervals := intervals s @ [(next_handle s, ms, cb)],
        next_handle := Suc (next_handle s)\<rparr>)"

definition clearInterval :: "nat \<Rightarrow> dashboard \<Rightarrow> dashboard" where
  "clearInterval h s = s\<lparr>intervals := AList.delete h (intervals s)\<rparr>"

section \<open>The notification queue\<close>

text \<open>
  \<^verbatim>\<open>removeNotification(notificationId)\<close>: the first entry whose \<^verbatim>\<open>id\<close> is strictly equal
  to the argument is spliced out; with no such entry (\<^verbatim>\<open>findIndex\<close> gives -1) nothing
  changes.
\<close>

fun remove_first :: "jsval \<Rightarrow> obj list \<Rightarrow> obj list" where
  "remove_first i [] = []"
| "remove_first i (n # ns) = (if strict_eq (get n ''id'') i then ns else n # remove_first i ns)"

definition removeNotification :: "jsval \<Rightarrow> dashboard \<Rightarrow> dashboard" where
  "removeNotification notificationId s =
     s\<lparr>notifications := remove_first notificationId (notifications s)\<rparr>"

text \<open>
  \<^verbatim>\<open>addNotification(notification)\<close>: the entry \<^verbatim>\<open>{...notification, id: Date.now(),
  timestamp: new Date()}\<close> goes to the front, the list is cut to its first 10 entries when
  it is longer, and a 5000 ms timer is set whose callback reads \<^verbatim>\<open>notification.id\<close> from
  the argument. The two readings of the clock are one instant, and the \<^verbatim>\<open>Date\<close> is kept
  as its time value.
\<close>

definition entry :: "clock \<Rightarrow> obj \<Rightarrow> obj" where
  "entry clk notification =
     put ''timestamp'' (Num (show_int (now clk)))
       (put ''id'' (Num (show_int (now clk))) notification)"

definition addNotification :: "clock \<Rightarrow> obj \<Rightarrow> dashboard \<Rightarrow> dashboard" where
  "addNotification clk notification s =
     (let ns = entry clk notification # notifications s;
          ns' = (if length ns > 10 then take 10 ns else ns)
      in setTimeout (RemoveNotification notification) 5000 clk (s\<lparr>notifications := ns'\<rparr>))"

text \<open>A run of pushes, each with its own reading of the clock.\<close>

definition pushes :: "(clock \<times> obj) list \<Rightarrow> dashboard \<Rightarrow> dashboard" where
  "pushes ps s = foldl (\<lambda>s (clk, n). addNotification clk n s) s ps"

section \<open>Construction and charts\<close>

text \<open>
  \<^verbatim>\<open>setup()\<close>: the state the component starts in, in a document with the given element
  ids and the given number of \<^verbatim>\<open>.o_health_value\<close> elements. No timer is pending, no
  socket exists, and timer handles start at 1 (a browser's handles are positive).
\<close>

definition empty_snapshot :: snapshot where
  "empty_snapshot =
     \<lparr>order_count = Absent, customer_count = Absent, error_count = Absent,
      sales_chart_data = None, revenue_distribution = None,
      customer_growth = None, inventory_status = None\<rparr>"

definition setup_dashboard :: "string list \<Rightarrow> nat \<Rightarrow> dashboard" where
  "setup_dashboard ids health =
     \<lparr>loading = False, realTimeData = empty_snapshot, chartData = [], notifications = [],
      systemHealth = Obj [], chartInstances = [], updateInterval = None,
      timeouts = [], intervals = [], next_handle = 1, sockets = [],
      service_notifications = [], console = [], document_ids = ids,
      health_elements = health, in_flight = 0\<rparr>"

text \<open>
  Each \<^verbatim>\<open>initialize...Chart\<close> returns early when its canvas is not in the document, and
  otherwise stores a new chart under its key.
\<close>

definition new_chart :: "string \<Rightarrow> string \<Rightarrow> chart \<Rightarrow> dashboard \<Rightarrow> dashboard" where
  "new_chart element_id key c s =
     (if element_id \<notin> set (document_ids s) then s
      else s\<lparr>chartInstances := AList.update key c (chartInstances s)\<rparr>)"

definition initializeSalesChart :: "dashboard \<Rightarrow> dashboard" where
  "initializeSalesChart = new_chart ''sales_chart'' ''sales'' \<lparr>labels = [], data = []\<rparr>"

definition initializeRevenueChart :: "dashboard \<Rightarrow> dashboard" where
  "initializeRevenueChart =
     new_chart ''revenue_chart'' ''revenue''
       \<lparr>labels = [Str ''Online Sales'', Str ''In-Store Sales'', Str ''Wholesale''],
        data = [Num ''65'', Num ''25'', Num ''10'']\<rparr>"

definition initializeCustomerChart :: "dashboard \<Rightarrow> dashboard" where
  "initializeCustomerChart =
     new_chart ''customer_chart'' ''customer''
       \<lparr>labels = [Str ''Jan'', Str ''Feb'', Str ''Mar'', Str ''Apr'', Str ''May'', Str ''Jun''],
        data = [Num ''120'', Num ''150'', Num ''180'', Num ''200'', Num ''220'', Num ''250'']\<rparr>"

definition initializeInventoryChart :: "dashboard \<Rightarrow> dashboard" where
  "initializeInventoryChart =
     new_chart ''inventory_chart'' ''inventory''
       \<lparr>labels = [Str ''In Stock'', Str ''Low Stock'', Str ''Out of Stock''],
        data = [Num ''70'', Num ''20'', Num ''10'']\<rparr>"

definition initializeCharts :: "dashboard \<Rightarrow> dashboard" where
  "initializeCharts s =
     initializeInventoryChart (initializeCustomerChart
       (initializeRevenueChart (initializeSalesChart s)))"

text \<open>
  \<^verbatim>\<open>updateRevenueChart\<close>, \<^verbatim>\<open>updateCustomerChart\<close>, \<^verbatim>\<open>updateInventoryChart\<close>: when the
  chart exists and the snapshot has the field, the chart's data becomes the field.
\<close>

definition set_chart_data :: "string \<Rightarrow> jsval list option \<Rightarrow> dashboard \<Rightarrow> dashboard" where
  "set_chart_data key field s =
     (case (map_of (chartInstances s) key, field) of
        (Some c, Some vs) \<Rightarrow> s\<lparr>chartInstances := AList.update key (c\<lparr>data := vs\<rparr>) (chartInstances s)\<rparr>
      | _ \<Rightarrow> s)"

definition updateRevenueChart :: "snapshot \<Rightarrow> dashboard \<Rightarrow> dashboard" where
  "updateRevenueChart d = set_chart_data ''revenue'' (revenue_distribution d)"

definition updateCustomerChart :: "snapshot \<Rightarrow> dashboard \<Rightarrow> dashboard" where
  "updateCustomerChart d = set_chart_data ''customer'' (customer_growth d)"

definition updateInventoryChart :: "snapshot \<Rightarrow> dashboard \<Rightarrow> dashboard" where
  "updateInventoryChart d = set_chart_data ''inventory'' (inventory_status d)"

text \<open>
  \<^verbatim>\<open>updateCharts(data)\<close>: when the sales chart exists and the snapshot has
  \<^verbatim>\<open>sales_chart_data\<close>, the chart's labels and data are assigned the snapshot's two lists
  as they are; then the three other charts.
\<close>

definition updateCharts :: "snapshot \<Rightarrow> dashboard \<Rightarrow> dashboard" where
  "updateCharts d s =
     (let s1 = (case (map_of (chartInstances s) ''sales'', sales_chart_data d) of
                  (Some c, Some (ls, vs)) \<Rightarrow>
                    s\<lparr>chartInstances := AList.update ''sales'' (c\<lparr>labels := ls, data := vs\<rparr>) (chartInstances s)\<rparr>
                | _ \<Rightarrow> s)
      in updateInventoryChart d (updateCustomerChart d (updateRevenueChart d s1)))"

text \<open>
  \<^verbatim>\<open>updateSalesChart(orderData)\<close>: nothing without a sales chart. Otherwise the time label
  is pushed, then \<^verbatim>\<open>orderData.amount\<close> (reading it throws on a null payload, after the
  label went in), and when the labels are now more than 20 one element is shifted off the
  front of both arrays. \<^verbatim>\<open>shift()\<close> on an empty array leaves it empty, as \<open>tl\<close> does.
\<close>

definition updateSalesChart :: "clock \<Rightarrow> jsval \<Rightarrow> dashboard \<Rightarrow> completion" where
  "updateSalesChart clk orderData s =
     (case map_of (chartInstances s) ''sales'' of
        None \<Rightarrow> Returns s
      | Some c \<Rightarrow>
          (let c1 = c\<lparr>labels := labels c @ [Str (timeLabel clk)]\<rparr>
           in case getprop orderData ''amount'' of
                Inl e \<Rightarrow> Throws e (s\<lparr>chartInstances := AList.update ''sales'' c1 (chartInstances s)\<rparr>)
              | Inr amount \<Rightarrow>
                  (let c2 = c1\<lparr>data := data c1 @ [amount]\<rparr>;
                       c3 = (if length (labels c2) > 20
                             then c2\<lparr>labels := tl (labels c2), data := tl (data c2)\<rparr>
                             else c2)
                   in Returns (s\<lparr>chartInstances := AList.update ''sales'' c3 (chartInstances s)\<rparr>))))"

text \<open>A run of appends to the sales series; it stops where one throws.\<close>

fun appends :: "(clock \<times> jsval) list \<Rightarrow> dashboard \<Rightarrow> completion" where
  "appends [] s = Returns s"
| "appends ((clk, orderData) # rest) s = and_then (updateSalesChart clk orderData s) (appends rest)"

section \<open>Push events\<close>

text \<open>The three \<^verbatim>\<open>this.state.realTimeData.<counter>++\<close>.\<close>

definition bump_order_count :: "dashboard \<Rightarrow> dashboard" where
  "bump_order_count s =
     s\<lparr>realTimeData := (realTimeData s)\<lparr>order_count := incr (order_count (realTimeData s))\<rparr>\<rparr>"

definition bump_customer_count :: "dashboard \<Rightarrow> dashboard" where
  "bump_customer_count s =
     s\<lparr>realTimeData := (realTimeData s)\<lparr>customer_count := incr (customer_count (realTimeData s))\<rparr>\<rparr>"

definition bump_error_count :: "dashboard \<Rightarrow> dashboard" where
  "bump_error_count s =
     s\<lparr>realTimeData := (realTimeData s)\<lparr>error_count := incr (error_count (realTimeData s))\<rparr>\<rparr>"

text \<open>The double quote character of the two quoted messages.\<close>

definition dquote :: char where
  "dquote = CHR 0x22"

definition notice :: "string \<Rightarrow> string \<Rightarrow> jsval \<Rightarrow> string \<Rightarrow> obj" where
  "notice ty title message icon =
     [(''type'', Str ty), (''title'', Str title), (''message'', message), (''icon'', Str icon)]"

text \<open>
  \<^verbatim>\<open>handleOrderCreated(orderData)\<close>: the counter first, then the notification (building its
  message reads \<^verbatim>\<open>orderData.order_number\<close> and makes a string of it; either can throw,
  and then the counter has been bumped and nothing else is done), then the chart.
\<close>

definition handleOrderCreated :: "clock \<Rightarrow> jsval \<Rightarrow> dashboard \<Rightarrow> completion" where
  "handleOrderCreated clk orderData s =
     (let s1 = bump_order_count s
      in case getprop orderData ''order_number'' of
           Inl e \<Rightarrow> Throws e s1
         | Inr number \<Rightarrow>
             (case toString number of
                Inl e \<Rightarrow> Throws e s1
              | Inr txt \<Rightarrow>
                  updateSalesChart clk orderData
                    (addNotification clk
                       (notice ''success'' ''New Order''
                          (Str (''Order #'' @ txt @ '' created'')) ''fa-shopping-cart'') s1)))"

text \<open>
  \<^verbatim>\<open>handleProductUpdated(productData)\<close>: the message is built before \<^verbatim>\<open>addNotification\<close>
  is called, so that a throw there leaves the state as it was.
\<close>

definition handleProductUpdated :: "clock \<Rightarrow> jsval \<Rightarrow> dashboard \<Rightarrow> completion" where
  "handleProductUpdated clk productData s =
     (case getprop productData ''name'' of
        Inl e \<Rightarrow> Throws e s
      | Inr name \<Rightarrow>
          (case toString name of
             Inl e \<Rightarrow> Throws e s
           | Inr txt \<Rightarrow>
               Returns (addNotification clk
                 (notice ''info'' ''Product Updated''
                    (Str (''Product '' @ [dquote] @ txt @ [dquote] @ '' updated'')) ''fa-cube'') s)))"

definition handleCustomerSynced :: "clock \<Rightarrow> jsval \<Rightarrow> dashboard \<Rightarrow> completion" where
  "handleCustomerSynced clk customerData s =
     (let s1 = bump_customer_count s
      in case getprop customerData ''name'' of
           Inl e \<Rightarrow> Throws e s1
         | Inr name \<Rightarrow>
             (case toString name of
                Inl e \<Rightarrow> Throws e s1
              | Inr txt \<Rightarrow>
                  Returns (addNotification clk
                    (notice ''success'' ''Customer Synced''
                       (Str (''Customer '' @ [dquote] @ txt @ [dquote] @ '' synced'')) ''fa-users'')
                    s1)))"

definition handleErrorOccurred :: "clock \<Rightarrow> jsval \<Rightarrow> dashboard \<Rightarrow> completion" where
  "handleErrorOccurred clk errorData s =
     (let s1 = bump_error_count s
      in case getprop errorData ''message'' of
           Inl e \<Rightarrow> Throws e s1
         | Inr message \<Rightarrow>
             Returns (addNotification clk
               (notice ''danger'' ''Error Occurred'' message ''fa-exclamation-triangle'') s1))"

text \<open>
  \<^verbatim>\<open>updateSystemHealthDisplay()\<close> writes to the document only; it reads
  \<^verbatim>\<open>this.state.systemHealth[metric]\<close> once per \<^verbatim>\<open>.o_health_value\<close> element, which throws
  when the health record is null or undefined and there is such an element.
\<close>

definition updateSystemHealthDisplay :: "dashboard \<Rightarrow> completion" where
  "updateSystemHealthDisplay s =
     (if health_elements s > 0 \<and> (systemHealth s = Undefined \<or> systemHealth s = Null)
      then Throws TypeError s else Returns s)"

definition handleSystemHealthUpdate :: "jsval \<Rightarrow> dashboard \<Rightarrow> completion" where
  "handleSystemHealthUpdate healthData s = updateSystemHealthDisplay (s\<lparr>systemHealth := healthData\<rparr>)"

text \<open>A handler called on \<^verbatim>\<open>data.payload\<close>.\<close>

definition with_payload ::
  "jsval \<Rightarrow> (jsval \<Rightarrow> dashboard \<Rightarrow> completion) \<Rightarrow> dashboard \<Rightarrow> completion" where
  "with_payload d handler s =
     (case getprop d ''payload'' of
        Inl e \<Rightarrow> Throws e s
      | Inr payload \<Rightarrow> handler payload s)"

text \<open>
  \<^verbatim>\<open>handleRealTimeUpdate(data)\<close>: a \<^verbatim>\<open>switch\<close> on \<^verbatim>\<open>data.type\<close> with five cases and no
  default. The cases compare with \<^verbatim>\<open>===\<close>, in the source's order.
\<close>

definition handleRealTimeUpdate :: "clock \<Rightarrow> jsval \<Rightarrow> dashboard \<Rightarrow> completion" where
  "handleRealTimeUpdate clk d s =
     (case getprop d ''type'' of
        Inl e \<Rightarrow> Throws e s
      | Inr ty \<Rightarrow>
          if strict_eq ty (Str ''order_created'')
            then with_payload d (handleOrderCreated clk) s
          else if strict_eq ty (Str ''product_updated'')
            then with_payload d (handleProductUpdated clk) s
          else if strict_eq ty (Str ''customer_synced'')
            then with_payload d (handleCustomerSynced clk) s
          else if strict_eq ty (Str ''error_occurred'')
            then with_payload d (handleErrorOccurred clk) s
          else if strict_eq ty (Str ''system_health'')
            then with_payload d handleSystemHealthUpdate s
          else Returns s)"

section \<open>The push channel\<close>

definition log :: "level \<Rightarrow> string \<Rightarrow> dashboard \<Rightarrow> dashboard" where
  "log lv msg s = s\<lparr>console := console s @ [(lv, msg)]\<rparr>"

text \<open>
  \<^verbatim>\<open>setupWebSocket()\<close> creates a socket, held only in a local constant, and gives it four
  handlers. The socket is the next entry of \<open>sockets\<close>; the handlers are the four
  functions below, which the browser calls.
\<close>

definition setupWebSocket :: "dashboard \<Rightarrow> dashboard" where
  "setupWebSocket s = s\<lparr>sockets := sockets s @ [CONNECTING]\<rparr>"

definition ws_onopen :: "dashboard \<Rightarrow> dashboard" where
  "ws_onopen s = log Info ''WebSocket connected for real-time updates'' s"

text \<open>
  \<^verbatim>\<open>ws.onmessage\<close>: \<^verbatim>\<open>JSON.parse(event.data)\<close>, whose outcome on the frame's text is the
  argument (a SyntaxError for text that is not JSON), then the router. Nothing catches.
\<close>

definition ws_onmessage :: "clock \<Rightarrow> exn + jsval \<Rightarrow> dashboard \<Rightarrow> completion" where
  "ws_onmessage clk parsed s =
     (case parsed of
        Inl e \<Rightarrow> Throws e s
      | Inr d \<Rightarrow> handleRealTimeUpdate clk d s)"

definition ws_onerror :: "dashboard \<Rightarrow> dashboard" where
  "ws_onerror s = log Error ''WebSocket error:'' s"

definition ws_onclose :: "clock \<Rightarrow> dashboard \<Rightarrow> dashboard" where
  "ws_onclose clk s =
     setTimeout SetupWebSocket 5000 clk
       (log Info ''WebSocket disconnected, attempting to reconnect...'' s)"

text \<open>The browser opening or closing socket \<open>i\<close>, and calling the handler.\<close>

definition channel_open :: "nat \<Rightarrow> dashboard \<Rightarrow> dashboard" where
  "channel_open i s = ws_onopen (s\<lparr>sockets := (sockets s)[i := OPEN]\<rparr>)"

definition channel_close :: "nat \<Rightarrow> clock \<Rightarrow> dashboard \<Rightarrow> dashboard" where
  "channel_close i clk s = ws_onclose clk (s\<lparr>sockets := (sockets s)[i := CLOSED]\<rparr>)"

section \<open>Polling\<close>

text \<open>
  \<^verbatim>\<open>loadDashboardData()\<close> is asynchronous. Up to its \<^verbatim>\<open>await\<close> it sets the loading flag
  and sends the request; when the request settles it either stores the snapshot and
  updates the charts, or logs and tells the framework's notification service; the
  \<^verbatim>\<open>finally\<close> clears the flag in both cases.
\<close>

datatype rpc_result = Resolved snapshot | Rejected

definition loadDashboardData_call :: "dashboard \<Rightarrow> dashboard" where
  "loadDashboardData_call s = s\<lparr>loading := True, in_flight := Suc (in_flight s)\<rparr>"

definition loadDashboardData_settle :: "rpc_result \<Rightarrow> dashboard \<Rightarrow> dashboard" where
  "loadDashboardData_settle r s =
     (let s0 = s\<lparr>in_flight := in_flight s - 1\<rparr>;
          s1 = (case r of
                  Resolved d \<Rightarrow> updateCharts d (s0\<lparr>realTimeData := d\<rparr>)
                | Rejected \<Rightarrow>
                    (log Error ''Failed to load dashboard data:'' s0)
                      \<lparr>service_notifications :=
                         service_notifications s0 @ [(''Failed to load dashboard data'', ''danger'')]\<rparr>)
      in s1\<lparr>loading := False\<rparr>)"

text \<open>
  \<^verbatim>\<open>initializeRealTimeUpdates()\<close>: a 30000 ms interval that calls
  \<^verbatim>\<open>loadDashboardData\<close>, its handle kept in \<^verbatim>\<open>updateInterval\<close>, then the socket.
\<close>

definition initializeRealTimeUpdates :: "dashboard \<Rightarrow> dashboard" where
  "initializeRealTimeUpdates s =
     (case setInterval LoadDashboardData 30000 s of
        (h, s1) \<Rightarrow> setupWebSocket (s1\<lparr>updateInterval := Some h\<rparr>))"

text \<open>
  \<^verbatim>\<open>willUnmount()\<close>: the interval is cleared when \<^verbatim>\<open>updateInterval\<close> is truthy (not null,
  not 0), and the chart map is emptied. Nothing else is touched.
\<close>

definition willUnmount :: "dashboard \<Rightarrow> dashboard" where
  "willUnmount s =
     (let s1 = (case updateInterval s of
                  None \<Rightarrow> s
                | Some h \<Rightarrow> if h = 0 then s else clearInterval h s)
      in s1\<lparr>chartInstances := []\<rparr>)"

section \<open>Timers firing\<close>

definition run_callback :: "callback \<Rightarrow> dashboard \<Rightarrow> dashboard" where
  "run_callback cb s =
     (case cb of
        RemoveNotification notification \<Rightarrow> removeNotification (get notification ''id'') s
      | SetupWebSocket \<Rightarrow> setupWebSocket s
      | LoadDashboardData \<Rightarrow> loadDashboardData_call s)"

text \<open>
  A pending timeout fires once, not before it is due, and is then gone. An interval ticks
  as long as it has not been cleared. \<open>None\<close>: no such timer, or not due yet.
\<close>

definition fire_timeout :: "nat \<Rightarrow> clock \<Rightarrow> dashboard \<Rightarrow> dashboard option" where
  "fire_timeout h clk s =
     (case map_of (timeouts s) h of
        None \<Rightarrow> None
      | Some (due, cb) \<Rightarrow>
          if now clk < due then None
          else Some (run_callback cb (s\<lparr>timeouts := AList.delete h (timeouts s)\<rparr>)))"

definition tick_interval :: "nat \<Rightarrow> dashboard \<Rightarrow> dashboard option" where
  "tick_interval h s =
     (case map_of (intervals s) h of
        None \<Rightarrow> None
      | Some (ms, cb) \<Rightarrow> Some (run_callback cb s))"

section \<open>Runs and example inputs\<close>

text \<open>
  \<open>n\<close> polls in a row that all fail: the interval ticks, the request is rejected, and so
  on. \<open>None\<close> when the interval is not there to tick.
\<close>

fun failed_polls :: "nat \<Rightarrow> nat \<Rightarrow> dashboard \<Rightarrow> dashboard option" where
  "failed_polls h 0 s = Some s"
| "failed_polls h (Suc n) s =
     (case tick_interval h s of
        None \<Rightarrow> None
      | Some s1 \<Rightarrow> failed_polls h n (loadDashboardData_settle Rejected s1))"

definition noon :: clock where
  "noon = \<lparr>now = 1000, timeLabel = ''12:00:01''\<rparr>"

definition later :: clock where
  "later = \<lparr>now = 6000, timeLabel = ''12:00:06''\<rparr>"

text \<open>The component right after \<^verbatim>\<open>setup()\<close>, in a document without canvases.\<close>

definition fresh :: dashboard where
  "fresh = setup_dashboard [] 0"

text \<open>The component after \<^verbatim>\<open>initializeCharts()\<close>, in a document with the four canvases.\<close>

definition mounted :: dashboard where
  "mounted = initializeCharts
     (setup_dashboard [''sales_chart'', ''revenue_chart'', ''customer_chart'', ''inventory_chart''] 0)"

text \<open>The same with an order counter of 7, as a snapshot would leave it.\<close>

definition counting :: dashboard where
  "counting = mounted\<lparr>realTimeData := empty_snapshot\<lparr>order_count := Count 7\<rparr>\<rparr>"

definition order_42 :: jsval where
  "order_42 = Obj [(''type'', Str ''order_created''),
                   (''payload'', Obj [(''order_number'', Num ''1001''), (''amount'', Num ''42'')])]"

definition product_frame :: jsval where
  "product_frame =
     Obj [(''type'', Str ''product_updated''), (''payload'', Obj [(''name'', Str ''Mug'')])]"

definition mug_notice :: obj where
  "mug_notice =
     notice ''info'' ''Product Updated''
       (Str (''Product '' @ [dquote] @ ''Mug'' @ [dquote] @ '' updated'')) ''fa-cube''"

text \<open>A product frame that carries no payload.\<close>

definition bare_product_frame :: jsval where
  "bare_product_frame = Obj [(''type'', Str ''product_updated'')]"

definition unknown_frame :: jsval where
  "unknown_frame = Obj [(''type'', Str ''unknown_kind''), (''payload'', Obj [])]"

definition snapshot_21 :: snapshot where
  "snapshot_21 =
     empty_snapshot\<lparr>sales_chart_data := Some (replicate 21 (Str ''Mon''), replicate 21 (Num ''7''))\<rparr>"

text \<open>
  A session: real-time updates started, the socket opened, one product event handled;
  then the socket dropped, which leaves a reconnect timer pending.
\<close>

definition connected :: dashboard where
  "connected =
     state_of (ws_onmessage noon (Inr product_frame)
       (channel_open 0 (initializeRealTimeUpdates fresh)))"

definition reconnecting :: dashboard where
  "reconnecting = channel_close 0 noon connected"

section \<open>Properties\<close>

lemmas model_defs =
  noon_def later_def fresh_def mounted_def counting_def order_42_def product_frame_def
  bare_product_frame_def mug_notice_def unknown_frame_def snapshot_21_def connected_def
  reconnecting_def setup_dashboard_def empty_snapshot_def initializeCharts_def
  initializeSalesChart_def initializeRevenueChart_def initializeCustomerChart_def
  initializeInventoryChart_def new_chart_def ws_onmessage_def handleRealTimeUpdate_def
  with_payload_def handleProductUpdated_def handleOrderCreated_def bump_order_count_def
  updateSalesChart_def addNotification_def setTimeout_def setInterval_def clearInterval_def
  entry_def notice_def channel_open_def channel_close_def ws_onopen_def ws_onclose_def
  log_def setupWebSocket_def initializeRealTimeUpdates_def willUnmount_def fire_timeout_def
  tick_interval_def run_callback_def removeNotification_def loadDashboardData_call_def
  loadDashboardData_settle_def updateCharts_def updateRevenueChart_def
  updateCustomerChart_def updateInventoryChart_def set_chart_data_def plus_one_def Let_def

subsection \<open>Reading properties and making strings\<close>

lemma getprop_throws_TypeError: "getprop v k = Inl e \<Longrightarrow> e = TypeError"
  by (cases v) auto

lemma getprop_returns: "(\<exists>v. getprop d k = Inr v) = (d \<noteq> Undefined \<and> d \<noteq> Null)"
  by (cases d) auto

lemma collect_Inl: "collect rs = Inl e \<Longrightarrow> Inl e \<in> set rs"
  by (induction rs rule: collect.induct) (auto split: sum.splits)

lemma toString_throws_TypeError: "toString v = Inl e \<Longrightarrow> e = TypeError"
proof (induction v arbitrary: e)
  case (Arr xs)
  then have "collect (map (\<lambda>x. if x = Undefined \<or> x = Null then Inr [] else toString x) xs)
               = Inl e"
    by (simp split: sum.splits)
  then have "Inl e \<in> set (map (\<lambda>x. if x = Undefined \<or> x = Null then Inr []
                                      else toString x) xs)"
    by (rule collect_Inl)
  then obtain x where "x \<in> set xs" "toString x = Inl e"
    by (auto split: if_splits)
  then show ?case using Arr.IH by blast
next
  case (Obj kvs)
  then show ?case by (simp split: if_splits)
qed simp_all

lemma strict_eq_Str: "strict_eq v (Str x) = (v = Str x)"
  by (cases v) auto

subsection \<open>The notification queue is bounded and newest first\<close>

lemma notifications_addNotification:
  "notifications (addNotification clk n s) =
     (if length (notifications s) \<ge> 10 then take 10 (entry clk n # notifications s)
      else entry clk n # notifications s)"
  by (simp add: addNotification_def setTimeout_def Let_def)

lemma get_entry_type: "get (entry clk (notice ty title message icon)) ''type'' = Str ty"
  by (simp add: entry_def notice_def)

text \<open>
  C1. After every push of every run of pushes, from any state, the queue holds at most 10
  entries (the bound is the literal 10 in the source) and its first entry is the one just
  pushed: the argument with \<^verbatim>\<open>id\<close> and \<^verbatim>\<open>timestamp\<close> set from the clock.
\<close>

theorem push_bounded_newest_first:
  "length (notifications (pushes (ps @ [(clk, n)]) s)) \<le> 10 \<and>
   take 1 (notifications (pushes (ps @ [(clk, n)]) s)) = [entry clk n]"
  by (simp add: pushes_def notifications_addNotification)

subsection \<open>The expiry timer\<close>

lemma remove_first_absent:
  "\<forall>m \<in> set ns. \<not> strict_eq (get m ''id'') i \<Longrightarrow> remove_first i ns = ns"
  by (induction ns) auto

text \<open>
  The timer's callback reads \<^verbatim>\<open>id\<close> from the argument of \<^verbatim>\<open>addNotification\<close>, not from
  the entry that was queued. An argument without an \<^verbatim>\<open>id\<close>, which is what the four
  handlers that call it pass, makes the callback look for \<^verbatim>\<open>undefined\<close>, and no entry has
  that id.
\<close>

lemma expiry_is_noop:
  assumes "get n ''id'' = Undefined"
      and "\<forall>m \<in> set (notifications s). get m ''id'' \<noteq> Undefined"
  shows "run_callback (RemoveNotification n) s = s"
proof -
  have "\<forall>m \<in> set (notifications s). \<not> strict_eq (get m ''id'') Undefined"
  proof
    fix m assume "m \<in> set (notifications s)"
    then have "get m ''id'' \<noteq> Undefined" using assms(2) by blast
    then show "\<not> strict_eq (get m ''id'') Undefined" by (cases "get m ''id''") auto
  qed
  then have "remove_first Undefined (notifications s) = notifications s"
    by (rule remove_first_absent)
  then show ?thesis using assms(1) by (simp add: run_callback_def removeNotification_def)
qed

text \<open>
  C2. A product event handled at time 1000 on a fresh component queues one notification
  and sets one timer, due at 6000. When that timer fires at 6000 it is consumed and the
  notification is still in the queue: the expiry removes nothing.
\<close>

theorem expiry_timer_removes_nothing:
  "timeouts (state_of (ws_onmessage noon (Inr product_frame) fresh))
     = [(1, 6000, RemoveNotification mug_notice)] \<and>
   notifications (state_of (ws_onmessage noon (Inr product_frame) fresh))
     = [entry noon mug_notice] \<and>
   map_option notifications
     (fire_timeout 1 later (state_of (ws_onmessage noon (Inr product_frame) fresh)))
     = Some [entry noon mug_notice] \<and>
   map_option timeouts
     (fire_timeout 1 later (state_of (ws_onmessage noon (Inr product_frame) fresh)))
     = Some []"
  by (simp add: model_defs)

subsection \<open>The sales series and its window of 20\<close>

lemma updateSalesChart_Obj:
  "map_of (chartInstances s) ''sales'' = Some c \<Longrightarrow>
   updateSalesChart clk (Obj kvs) s =
     Returns (s\<lparr>chartInstances := AList.update ''sales''
        (if length (labels c) \<ge> 20
         then c\<lparr>labels := tl (labels c @ [Str (timeLabel clk)]),
                data := tl (data c @ [get kvs ''amount''])\<rparr>
         else c\<lparr>labels := labels c @ [Str (timeLabel clk)],
                data := data c @ [get kvs ''amount'']\<rparr>)
        (chartInstances s)\<rparr>)"
  by (simp add: updateSalesChart_def Let_def)

lemma step_window:
  assumes "length xs \<le> 20"
  shows "drop (length (if length xs \<ge> 20 then tl (xs @ [a]) else xs @ [a]) + n - 20)
           ((if length xs \<ge> 20 then tl (xs @ [a]) else xs @ [a]) @ ys)
         = drop (length xs + Suc n - 20) (xs @ a # ys)"
proof (cases "length xs = 20")
  case True
  then have ne: "xs \<noteq> []" by auto
  have "drop (Suc n) (xs @ a # ys) = drop n (tl xs @ a # ys)"
    using ne by (simp add: drop_Suc del: drop_append)
  then show ?thesis using True ne by (simp del: drop_append)
next
  case False
  then show ?thesis using assms by (simp del: drop_append)
qed

text \<open>
  From a sales chart whose two arrays have the same length, at most 20, a run of appends
  leaves the last 20 of what was there followed by what was appended.
\<close>

lemma appends_window:
  "map_of (chartInstances s) ''sales'' = Some c \<Longrightarrow> length (labels c) = length (data c) \<Longrightarrow>
   length (data c) \<le> 20 \<Longrightarrow>
   \<exists>s'. appends (map (\<lambda>(clk, kvs). (clk, Obj kvs)) ps) s = Returns s' \<and>
     map_of (chartInstances s') ''sales'' =
       Some \<lparr>labels = drop (length (labels c) + length ps - 20)
                        (labels c @ map (\<lambda>(clk, kvs). Str (timeLabel clk)) ps),
             data = drop (length (data c) + length ps - 20)
                        (data c @ map (\<lambda>(clk, kvs). get kvs ''amount'') ps)\<rparr>"
proof (induction ps arbitrary: s c)
  case Nil
  then show ?case by simp
next
  case (Cons p ps)
  obtain clk kvs where p: "p = (clk, kvs)" by (cases p)
  define c' where "c' = (if length (labels c) \<ge> 20
         then c\<lparr>labels := tl (labels c @ [Str (timeLabel clk)]),
                data := tl (data c @ [get kvs ''amount''])\<rparr>
         else c\<lparr>labels := labels c @ [Str (timeLabel clk)],
                data := data c @ [get kvs ''amount'']\<rparr>)"
  define s1 where "s1 = s\<lparr>chartInstances := AList.update ''sales'' c' (chartInstances s)\<rparr>"
  have step: "updateSalesChart clk (Obj kvs) s = Returns s1"
    using Cons.prems(1) by (simp add: updateSalesChart_Obj s1_def c'_def)
  have c1: "map_of (chartInstances s1) ''sales'' = Some c'"
    by (simp add: s1_def update_conv')
  have len: "length (labels c') = length (data c')" "length (data c') \<le> 20"
    using Cons.prems(2,3) by (auto simp: c'_def)
  from Cons.IH[OF c1 len] obtain s' where
    run: "appends (map (\<lambda>(clk, kvs). (clk, Obj kvs)) ps) s1 = Returns s'" and
    res: "map_of (chartInstances s') ''sales'' =
       Some \<lparr>labels = drop (length (labels c') + length ps - 20)
                        (labels c' @ map (\<lambda>(clk, kvs). Str (timeLabel clk)) ps),
             data = drop (length (data c') + length ps - 20)
                        (data c' @ map (\<lambda>(clk, kvs). get kvs ''amount'') ps)\<rparr>"
    by blast
  have lc: "labels c' = (if length (labels c) \<ge> 20 then tl (labels c @ [Str (timeLabel clk)])
                         else labels c @ [Str (timeLabel clk)])"
    by (simp add: c'_def)
  have dc: "data c' = (if length (data c) \<ge> 20 then tl (data c @ [get kvs ''amount''])
                       else data c @ [get kvs ''amount''])"
    using Cons.prems(2) by (simp add: c'_def)
  have l: "drop (length (labels c') + length ps - 20)
             (labels c' @ map (\<lambda>(clk, kvs). Str (timeLabel clk)) ps)
      = drop (length (labels c) + length (p # ps) - 20)
             (labels c @ map (\<lambda>(clk, kvs). Str (timeLabel clk)) (p # ps))"
    using step_window[of "labels c" "Str (timeLabel clk)" "length ps"
                         "map (\<lambda>(clk, kvs). Str (timeLabel clk)) ps"]
      Cons.prems(2,3) unfolding lc
    by (simp only: p list.map prod.case length_Cons)
  have d: "drop (length (data c') + length ps - 20)
             (data c' @ map (\<lambda>(clk, kvs). get kvs ''amount'') ps)
      = drop (length (data c) + length (p # ps) - 20)
             (data c @ map (\<lambda>(clk, kvs). get kvs ''amount'') (p # ps))"
    using step_window[of "data c" "get kvs ''amount''" "length ps"
                         "map (\<lambda>(clk, kvs). get kvs ''amount'') ps"]
      Cons.prems(3) unfolding dc
    by (simp only: p list.map prod.case length_Cons)
  have "appends (map (\<lambda>(clk, kvs). (clk, Obj kvs)) (p # ps)) s = Returns s'"
    using step run by (simp add: p)
  then show ?case using res l d by simp
qed

text \<open>
  So on the sales chart as \<^verbatim>\<open>initializeSalesChart\<close> makes it, a run of appends leaves the
  last 20 amounts appended, in the order they came.
\<close>

lemma new_series_window:
  assumes "map_of (chartInstances s) ''sales'' = Some \<lparr>labels = [], data = []\<rparr>"
  shows "\<exists>s' c. appends (map (\<lambda>(clk, kvs). (clk, Obj kvs)) ps) s = Returns s' \<and>
     map_of (chartInstances s') ''sales'' = Some c \<and>
     length (data c) \<le> 20 \<and>
     data c = drop (length ps - 20) (map (\<lambda>(clk, kvs). get kvs ''amount'') ps) \<and>
     labels c = drop (length ps - 20) (map (\<lambda>(clk, kvs). Str (timeLabel clk)) ps)"
  using appends_window[OF assms, of ps] by auto

text \<open>
  The window is kept by one \<^verbatim>\<open>shift()\<close> after each push, under an \<^verbatim>\<open>if\<close>. A series that
  is already longer than 20, which is what a snapshot can leave, therefore never comes
  back to 20: each append pushes one point and drops one.
\<close>

lemma appends_keep_length:
  "map_of (chartInstances s) ''sales'' = Some c \<Longrightarrow> length (labels c) = m \<Longrightarrow>
   length (data c) = m \<Longrightarrow> 20 \<le> m \<Longrightarrow>
   \<exists>s' c'. appends (map (\<lambda>(clk, kvs). (clk, Obj kvs)) ps) s = Returns s' \<and>
     map_of (chartInstances s') ''sales'' = Some c' \<and>
     length (labels c') = m \<and> length (data c') = m"
proof (induction ps arbitrary: s c)
  case Nil
  then show ?case by simp
next
  case (Cons p ps)
  obtain clk kvs where p: "p = (clk, kvs)" by (cases p)
  define c1 where "c1 = c\<lparr>labels := tl (labels c @ [Str (timeLabel clk)]),
                          data := tl (data c @ [get kvs ''amount''])\<rparr>"
  define s1 where "s1 = s\<lparr>chartInstances := AList.update ''sales'' c1 (chartInstances s)\<rparr>"
  have step: "updateSalesChart clk (Obj kvs) s = Returns s1"
    using Cons.prems(1,2,4) by (simp add: updateSalesChart_Obj s1_def c1_def)
  have c: "map_of (chartInstances s1) ''sales'' = Some c1"
    by (simp add: s1_def update_conv')
  have len: "length (labels c1) = m" "length (data c1) = m"
    using Cons.prems(2,3) by (simp_all add: c1_def)
  from Cons.IH[OF c len Cons.prems(4)] obtain s' c' where
    "appends (map (\<lambda>(clk, kvs). (clk, Obj kvs)) ps) s1 = Returns s'"
    "map_of (chartInstances s') ''sales'' = Some c'"
    "length (labels c') = m" "length (data c') = m"
    by blast
  then show ?case using step by (auto simp: p)
qed

lemma replaced_series:
  "map_of (chartInstances (updateCharts snapshot_21 mounted)) ''sales''
     = Some \<lparr>labels = replicate 21 (Str ''Mon''), data = replicate 21 (Num ''7'')\<rparr>"
  by (simp add: model_defs)

text \<open>
  C3. After a snapshot of 21 points has replaced the sales series, every run of appends
  returns and leaves 21 points in it, one more than the window of 20.
\<close>

theorem appends_after_replace_stay_21:
  "\<exists>s' c. appends (map (\<lambda>(clk, kvs). (clk, Obj kvs)) ps) (updateCharts snapshot_21 mounted)
             = Returns s' \<and>
     map_of (chartInstances s') ''sales'' = Some c \<and>
     length (labels c) = 21 \<and> length (data c) = 21"
  using appends_keep_length[OF replaced_series, of 21 ps] by simp

subsection \<open>An order event\<close>

text \<open>
  C4. Take an \<^verbatim>\<open>order_created\<close> frame whose payload is an object with amount 42 and an
  order number that can be made a string, routed while the order counter holds a whole
  number from -2 to the 53 up to but not including 2 to the 53. Then the call returns;
  the counter is one more; one notification of type \<^verbatim>\<open>success\<close> is at the front of the
  queue; and the sales chart, if there is one, has gained the one point 42 with its time
  label at the end (and lost its oldest label and point if that made more than 20
  labels; the other points are kept, it is not a replacement). If there is no sales
  chart there is none afterwards either, and no point was appended.
\<close>

theorem order_created_effects:
  assumes "getprop d ''type'' = Inr (Str ''order_created'')"
      and "getprop d ''payload'' = Inr (Obj kvs)"
      and "get kvs ''amount'' = Num ''42''"
      and "toString (get kvs ''order_number'') = Inr txt"
      and "order_count (realTimeData s) = Count k"
      and "- 9007199254740992 \<le> k" and "k < 9007199254740992"
  shows "\<exists>s' n. handleRealTimeUpdate clk d s = Returns s' \<and>
      order_count (realTimeData s') = Count (k + 1) \<and>
      n = entry clk (notice ''success'' ''New Order''
             (Str (''Order #'' @ txt @ '' created'')) ''fa-shopping-cart'') \<and>
      get n ''type'' = Str ''success'' \<and>
      notifications s' = (if length (notifications s) \<ge> 10 then take 10 (n # notifications s)
                          else n # notifications s) \<and>
      map_of (chartInstances s') ''sales'' =
        map_option
          (\<lambda>c. if length (labels c) \<ge> 20
               then c\<lparr>labels := tl (labels c @ [Str (timeLabel clk)]),
                      data := tl (data c @ [Num ''42''])\<rparr>
               else c\<lparr>labels := labels c @ [Str (timeLabel clk)],
                      data := data c @ [Num ''42'']\<rparr>)
          (map_of (chartInstances s) ''sales'')"
  using assms
  by (cases "map_of (chartInstances s) ''sales''")
     (simp_all add: handleRealTimeUpdate_def with_payload_def handleOrderCreated_def
        bump_order_count_def updateSalesChart_def addNotification_def setTimeout_def Let_def
        update_conv' get_entry_type plus_one_def)

text \<open>Order 1001 of amount 42, on the mounted component with a counter of 7.\<close>

theorem order_created_effects_witness:
  "getprop order_42 ''type'' = Inr (Str ''order_created'') \<and>
   getprop order_42 ''payload''
     = Inr (Obj [(''order_number'', Num ''1001''), (''amount'', Num ''42'')]) \<and>
   get [(''order_number'', Num ''1001''), (''amount'', Num ''42'')] ''amount'' = Num ''42'' \<and>
   toString (get [(''order_number'', Num ''1001''), (''amount'', Num ''42'')] ''order_number'')
     = Inr ''1001'' \<and>
   order_count (realTimeData counting) = Count 7 \<and>
   - 9007199254740992 \<le> (7::int) \<and> (7::int) < 9007199254740992 \<and>
   (\<exists>s'. handleRealTimeUpdate noon order_42 counting = Returns s' \<and>
      order_count (realTimeData s') = Count 8 \<and>
      map_of (chartInstances s') ''sales''
        = Some \<lparr>labels = [Str ''12:00:01''], data = [Num ''42'']\<rparr> \<and>
      length (notifications s') = 1)"
proof -
  have h1: "getprop order_42 ''type'' = Inr (Str ''order_created'')"
   and h2: "getprop order_42 ''payload''
              = Inr (Obj [(''order_number'', Num ''1001''), (''amount'', Num ''42'')])"
   and h3: "get [(''order_number'', Num ''1001''), (''amount'', Num ''42'')] ''amount''
              = Num ''42''"
   and h4: "toString (get [(''order_number'', Num ''1001''), (''amount'', Num ''42'')]
              ''order_number'') = Inr ''1001''"
   and h5: "order_count (realTimeData counting) = Count 7"
   and h6: "- 9007199254740992 \<le> (7::int)" and h7: "(7::int) < 9007199254740992"
   and c: "map_of (chartInstances counting) ''sales'' = Some \<lparr>labels = [], data = []\<rparr>"
   and n: "notifications counting = []"
    by (simp_all add: order_42_def counting_def mounted_def setup_dashboard_def
          initializeCharts_def initializeSalesChart_def initializeRevenueChart_def
          initializeCustomerChart_def initializeInventoryChart_def new_chart_def
          empty_snapshot_def)
  from order_created_effects[OF h1 h2 h3 h4 h5 h6 h7, of noon]
  show ?thesis using h1 h2 h3 h4 h5 c n by (auto simp: noon_def)
qed

text \<open>
  Without a chart and a counter the sentence of the specification fails. On the component
  as \<^verbatim>\<open>setup()\<close> leaves it there is no sales chart, so \<^verbatim>\<open>updateSalesChart\<close> appends
  nothing, and the counter is missing from the empty snapshot, so \<^verbatim>\<open>++\<close> stores NaN.
\<close>

theorem order_created_needs_chart_and_counter:
  "map_of (chartInstances (state_of (handleRealTimeUpdate noon order_42 fresh))) ''sales'' = None \<and>
   order_count (realTimeData (state_of (handleRealTimeUpdate noon order_42 fresh))) = NaN"
  by (simp add: model_defs)

subsection \<open>A snapshot replaces the sales series\<close>

lemma set_chart_data_other:
  "key \<noteq> k \<Longrightarrow> map_of (chartInstances (set_chart_data key f s)) k = map_of (chartInstances s) k"
  by (simp add: set_chart_data_def update_conv' split: option.splits)

text \<open>
  C5. When a snapshot with sales data arrives and the sales chart exists, the chart's
  labels and data become exactly the two lists of the snapshot, whole and in their order,
  whatever their length: nothing is cut to 20.
\<close>

theorem replace_assigns_supplied_lists:
  assumes "map_of (chartInstances s) ''sales'' = Some c"
      and "sales_chart_data d = Some (ls, vs)"
  shows "map_of (chartInstances (updateCharts d s)) ''sales''
           = Some (c\<lparr>labels := ls, data := vs\<rparr>) \<and>
         map_of (chartInstances (loadDashboardData_settle (Resolved d) s)) ''sales''
           = Some (c\<lparr>labels := ls, data := vs\<rparr>)"
  using assms
  by (simp add: loadDashboardData_settle_def updateCharts_def updateRevenueChart_def
        updateCustomerChart_def updateInventoryChart_def set_chart_data_other update_conv'
        Let_def)

theorem replace_assigns_supplied_lists_witness:
  "map_of (chartInstances mounted) ''sales'' = Some \<lparr>labels = [], data = []\<rparr> \<and>
   sales_chart_data snapshot_21 = Some (replicate 21 (Str ''Mon''), replicate 21 (Num ''7'')) \<and>
   map_of (chartInstances (updateCharts snapshot_21 mounted)) ''sales''
     = Some \<lparr>labels = replicate 21 (Str ''Mon''), data = replicate 21 (Num ''7'')\<rparr>"
proof -
  have h1: "map_of (chartInstances mounted) ''sales'' = Some \<lparr>labels = [], data = []\<rparr>"
    by (simp add: mounted_def setup_dashboard_def initializeCharts_def
          initializeSalesChart_def initializeRevenueChart_def initializeCustomerChart_def
          initializeInventoryChart_def new_chart_def)
  have h2: "sales_chart_data snapshot_21
              = Some (replicate 21 (Str ''Mon''), replicate 21 (Num ''7''))"
    by (simp add: snapshot_21_def)
  from replace_assigns_supplied_lists[OF h1 h2] show ?thesis using h1 h2 by simp
qed

text \<open>A snapshot of 21 points leaves 21 points in the series, one more than the window.\<close>

theorem replace_keeps_21_points:
  "map_option (length \<circ> data)
     (map_of (chartInstances (loadDashboardData_settle (Resolved snapshot_21) mounted)) ''sales'')
     = Some 21"
  by (simp add: model_defs)

subsection \<open>Teardown\<close>

text \<open>
  C6. \<^verbatim>\<open>willUnmount\<close> stops the polling interval whose handle is in \<^verbatim>\<open>updateInterval\<close>
  and empties the chart map. The pending timeouts, which are the reconnect timer and the
  notification timers, and the sockets are as they were: no handle to any of them was
  kept.
\<close>

theorem willUnmount_clears_interval_only:
  assumes "updateInterval s = Some h" and "h \<noteq> 0"
  shows "tick_interval h (willUnmount s) = None \<and>
         intervals (willUnmount s) = AList.delete h (intervals s) \<and>
         chartInstances (willUnmount s) = [] \<and>
         timeouts (willUnmount s) = timeouts s \<and>
         sockets (willUnmount s) = sockets s"
  using assms
  by (simp add: willUnmount_def clearInterval_def tick_interval_def delete_conv')

theorem willUnmount_clears_interval_only_witness:
  "updateInterval reconnecting = Some 1 \<and> (1::nat) \<noteq> 0 \<and>
   tick_interval 1 (willUnmount reconnecting) = None \<and>
   timeouts (willUnmount reconnecting) = timeouts reconnecting \<and>
   sockets (willUnmount reconnecting) = sockets reconnecting"
proof -
  have h1: "updateInterval reconnecting = Some 1"
    by (simp add: model_defs)
  have h2: "(1::nat) \<noteq> 0" by simp
  from willUnmount_clears_interval_only[OF h1 h2] show ?thesis using h1 by simp
qed

text \<open>
  Unmounting while a reconnect is pending leaves the notification timer and the reconnect
  timer in place; the reconnect timer then fires and opens a new socket. Unmounting while
  the socket is open leaves it open.
\<close>

theorem unmount_leaves_timers_and_socket:
  "timeouts (willUnmount reconnecting)
     = [(2, 6000, RemoveNotification mug_notice), (3, 6000, SetupWebSocket)] \<and>
   map_option sockets (fire_timeout 3 later (willUnmount reconnecting))
     = Some [CLOSED, CONNECTING] \<and>
   sockets (willUnmount connected) = [OPEN]"
  by (simp add: model_defs)

subsection \<open>Failed polls\<close>

lemma tick_load:
  "map_of (intervals s) h = Some (ms, LoadDashboardData) \<Longrightarrow>
   tick_interval h s = Some (loadDashboardData_call s)"
  by (simp add: tick_interval_def run_callback_def)

text \<open>
  C7. While the polling interval is running, any number of polls that fail in a row leave
  it running, so that the next tick sends a request again; each failure adds exactly one
  \<^verbatim>\<open>danger\<close> notification to the framework's notification service, and none to the
  component's own queue.
\<close>

theorem failed_polls_keep_polling:
  assumes "map_of (intervals s) h = Some (ms, LoadDashboardData)"
  shows "\<exists>s'. failed_polls h n s = Some s' \<and>
     intervals s' = intervals s \<and>
     service_notifications s' =
       service_notifications s @ replicate n (''Failed to load dashboard data'', ''danger'') \<and>
     notifications s' = notifications s \<and>
     tick_interval h s' = Some (loadDashboardData_call s')"
  using assms
proof (induction n arbitrary: s)
  case 0
  then show ?case using tick_load[OF "0.prems"] by simp
next
  case (Suc n)
  let ?s1 = "loadDashboardData_settle Rejected (loadDashboardData_call s)"
  have i: "intervals ?s1 = intervals s"
    and sn: "service_notifications ?s1
               = service_notifications s @ [(''Failed to load dashboard data'', ''danger'')]"
    and ns: "notifications ?s1 = notifications s"
    by (simp_all add: loadDashboardData_settle_def loadDashboardData_call_def log_def)
  have "map_of (intervals ?s1) h = Some (ms, LoadDashboardData)"
    using Suc.prems i by simp
  from Suc.IH[OF this] obtain s' where
    "failed_polls h n ?s1 = Some s'" "intervals s' = intervals ?s1"
    "service_notifications s' = service_notifications ?s1
        @ replicate n (''Failed to load dashboard data'', ''danger'')"
    "notifications s' = notifications ?s1" "tick_interval h s' = Some (loadDashboardData_call s')"
    by blast
  then show ?case using i sn ns tick_load[OF Suc.prems] by (simp add: replicate_app_Cons_same)
qed

text \<open>Three failures after real-time updates were started on a fresh component.\<close>

theorem failed_polls_keep_polling_witness:
  "map_of (intervals (initializeRealTimeUpdates fresh)) 1 = Some (30000, LoadDashboardData) \<and>
   (\<exists>s'. failed_polls 1 3 (initializeRealTimeUpdates fresh) = Some s' \<and>
      intervals s' = [(1, 30000, LoadDashboardData)] \<and>
      length (service_notifications s') = 3 \<and>
      notifications s' = [] \<and>
      tick_interval 1 s' = Some (loadDashboardData_call s'))"
proof -
  have h: "map_of (intervals (initializeRealTimeUpdates fresh)) 1
             = Some (30000, LoadDashboardData)"
    by (simp add: model_defs)
  have i: "intervals (initializeRealTimeUpdates fresh) = [(1, 30000, LoadDashboardData)]"
    and s: "service_notifications (initializeRealTimeUpdates fresh) = []"
    and n: "notifications (initializeRealTimeUpdates fresh) = []"
    by (simp_all add: model_defs)
  from failed_polls_keep_polling[OF h, of 3] show ?thesis using h i s n by auto
qed

text \<open>
  Eleven failures give eleven notifications in the service, more than the queue's bound
  of 10, and the component's queue is still empty.
\<close>

theorem failed_polls_bypass_queue:
  "map_option (length \<circ> service_notifications)
     (failed_polls 1 11 (initializeRealTimeUpdates fresh)) = Some 11 \<and>
   map_option notifications (failed_polls 1 11 (initializeRealTimeUpdates fresh)) = Some []"
  by code_simp

subsection \<open>Frames that are not events\<close>

text \<open>
  C8. A frame that parses to a value other than \<^verbatim>\<open>null\<close>, on which \<^verbatim>\<open>data.type\<close> can be
  read, and whose type (\<^verbatim>\<open>undefined\<close> when there is none) is none of the five known
  strings is dropped: the handler returns and the state is what it was. A frame that does
  not parse, and a frame that parses to \<^verbatim>\<open>null\<close>, change nothing either, but the handler
  throws: the SyntaxError of \<^verbatim>\<open>JSON.parse\<close>, or the TypeError of reading \<^verbatim>\<open>data.type\<close>, is
  not caught.
\<close>

theorem malformed_frame_leaves_state:
  assumes "getprop d ''type'' = Inr ty"
      and "ty \<notin> {Str ''order_created'', Str ''product_updated'', Str ''customer_synced'',
                  Str ''error_occurred'', Str ''system_health''}"
  shows "ws_onmessage clk (Inr d) s = Returns s \<and>
         ws_onmessage clk (Inl e) s = Throws e s \<and>
         ws_onmessage clk (Inr Null) s = Throws TypeError s"
  using assms by (simp add: ws_onmessage_def handleRealTimeUpdate_def strict_eq_Str)

text \<open>
  A frame of an unknown kind, and the frame \<^verbatim>\<open>{}\<close>, which has no type at all, on the
  connected component.
\<close>

theorem malformed_frame_leaves_state_witness:
  "getprop unknown_frame ''type'' = Inr (Str ''unknown_kind'') \<and>
   Str ''unknown_kind'' \<notin> {Str ''order_created'', Str ''product_updated'',
      Str ''customer_synced'', Str ''error_occurred'', Str ''system_health''} \<and>
   ws_onmessage noon (Inr unknown_frame) connected = Returns connected \<and>
   ws_onmessage noon (Inl SyntaxError) connected = Throws SyntaxError connected \<and>
   ws_onmessage noon (Inr Null) connected = Throws TypeError connected"
proof -
  have h1: "getprop unknown_frame ''type'' = Inr (Str ''unknown_kind'')"
    by (simp add: unknown_frame_def)
  have h2: "Str ''unknown_kind'' \<notin> {Str ''order_created'', Str ''product_updated'',
      Str ''customer_synced'', Str ''error_occurred'', Str ''system_health''}"
    by simp
  from malformed_frame_leaves_state[OF h1 h2] show ?thesis using h1 h2 by simp
qed

text \<open>An unparseable frame on a fresh component: the handler throws.\<close>

theorem unparseable_frame_throws:
  "ws_onmessage noon (Inl SyntaxError) fresh = Throws SyntaxError fresh"
  by (simp add: ws_onmessage_def)

subsection \<open>The loading flag\<close>

lemma in_flight_set_chart_data: "in_flight (set_chart_data key f s) = in_flight s"
  by (simp add: set_chart_data_def split: option.splits)

lemma in_flight_updateCharts: "in_flight (updateCharts d s) = in_flight s"
  by (simp add: updateCharts_def updateRevenueChart_def updateCustomerChart_def
        updateInventoryChart_def in_flight_set_chart_data Let_def split: option.splits)

lemma in_flight_settle: "in_flight (loadDashboardData_settle r s) = in_flight s - 1"
  by (cases r) (simp_all add: loadDashboardData_settle_def in_flight_updateCharts log_def Let_def)

text \<open>
  C9. The loading flag is raised by every call of \<^verbatim>\<open>loadDashboardData\<close>, and a tick of
  the polling interval is such a call, one that puts one more request in flight; the flag
  is lowered whenever a request settles, whichever way and in whatever state. It follows
  the last call or settlement and not the requests in flight: after two calls and one
  settlement it is down while a request is still in flight.
\<close>

theorem every_fetch_sets_loading:
  assumes "map_of (intervals s) h = Some (ms, LoadDashboardData)"
  shows "(\<exists>s'. tick_interval h s = Some s' \<and> s' = loadDashboardData_call s \<and> loading s' \<and>
               in_flight s' = Suc (in_flight s)) \<and>
         loading (loadDashboardData_call u) \<and>
         \<not> loading (loadDashboardData_settle r u) \<and>
         \<not> loading (loadDashboardData_settle r
               (loadDashboardData_call (loadDashboardData_call u))) \<and>
         in_flight (loadDashboardData_settle r
               (loadDashboardData_call (loadDashboardData_call u))) = Suc (in_flight u)"
proof -
  have "tick_interval h s = Some (loadDashboardData_call s)"
    using assms by (rule tick_load)
  moreover have "loading (loadDashboardData_call s)"
    and "in_flight (loadDashboardData_call s) = Suc (in_flight s)"
    and "loading (loadDashboardData_call u)"
    by (simp_all add: loadDashboardData_call_def)
  moreover have "\<not> loading (loadDashboardData_settle r u)"
    and "\<not> loading (loadDashboardData_settle r
               (loadDashboardData_call (loadDashboardData_call u)))"
    by (simp_all add: loadDashboardData_settle_def Let_def)
  moreover have "in_flight (loadDashboardData_settle r
               (loadDashboardData_call (loadDashboardData_call u))) = Suc (in_flight u)"
    by (simp add: in_flight_settle loadDashboardData_call_def)
  ultimately show ?thesis by simp
qed

theorem every_fetch_sets_loading_witness:
  "map_of (intervals connected) 1 = Some (30000, LoadDashboardData) \<and>
   \<not> loading connected \<and>
   (\<exists>s'. tick_interval 1 connected = Some s' \<and> loading s' \<and> in_flight s' = 1) \<and>
   \<not> loading (loadDashboardData_settle Rejected
         (loadDashboardData_call (loadDashboardData_call connected))) \<and>
   in_flight (loadDashboardData_settle Rejected
         (loadDashboardData_call (loadDashboardData_call connected))) = 1"
proof -
  have h: "map_of (intervals connected) 1 = Some (30000, LoadDashboardData)"
    by (simp add: model_defs)
  have l: "\<not> loading connected" and f: "in_flight connected = 0"
    by (simp_all add: model_defs)
  from every_fetch_sets_loading[OF h, where r = Rejected and u = connected]
  show ?thesis using h l f by auto
qed

text \<open>
  After the first load has settled the flag is down; the first tick of the polling
  interval raises it again.
\<close>

theorem background_poll_sets_loading:
  "loading (initializeRealTimeUpdates
      (loadDashboardData_settle (Resolved empty_snapshot) (loadDashboardData_call fresh)))
     = False \<and>
   map_option loading (tick_interval 1 (initializeRealTimeUpdates
      (loadDashboardData_settle (Resolved empty_snapshot) (loadDashboardData_call fresh))))
     = Some True"
  by (simp add: model_defs)

subsection \<open>A product event\<close>

lemma handleProductUpdated_cases:
  "handleProductUpdated clk p s =
     (case getprop p ''name'' of
        Inl e \<Rightarrow> Throws TypeError s
      | Inr v \<Rightarrow>
          (case toString v of
             Inl e \<Rightarrow> Throws TypeError s
           | Inr txt \<Rightarrow>
               Returns (addNotification clk
                 (notice ''info'' ''Product Updated''
                    (Str (''Product '' @ [dquote] @ txt @ [dquote] @ '' updated'')) ''fa-cube'') s)))"
  by (auto simp: handleProductUpdated_def split: sum.splits
           dest: getprop_throws_TypeError toString_throws_TypeError)

text \<open>
  C10. Routing a \<^verbatim>\<open>product_updated\<close> frame, whatever its payload, leaves the snapshot (and
  so the order, customer and error counters), every chart and the health record as they
  were. The call does one of two things. When the payload is neither \<^verbatim>\<open>null\<close> nor missing
  and its name can be made a string, it returns, and its one effect is that a
  notification of type \<^verbatim>\<open>info\<close> is queued at the front, with its timer. Otherwise it
  throws a TypeError and the state is what it was: nothing is queued.
\<close>

theorem product_updated_effects:
  assumes "getprop d ''type'' = Inr (Str ''product_updated'')"
  shows "realTimeData (state_of (handleRealTimeUpdate clk d s)) = realTimeData s \<and>
     chartInstances (state_of (handleRealTimeUpdate clk d s)) = chartInstances s \<and>
     systemHealth (state_of (handleRealTimeUpdate clk d s)) = systemHealth s \<and>
     ((\<exists>p v txt. getprop d ''payload'' = Inr p \<and> getprop p ''name'' = Inr v \<and>
                 toString v = Inr txt)
        = (\<exists>s'. handleRealTimeUpdate clk d s = Returns s')) \<and>
     (handleRealTimeUpdate clk d s = Throws TypeError s \<or>
      (\<exists>txt n. n = notice ''info'' ''Product Updated''
                     (Str (''Product '' @ [dquote] @ txt @ [dquote] @ '' updated'')) ''fa-cube'' \<and>
         get (entry clk n) ''type'' = Str ''info'' \<and>
         handleRealTimeUpdate clk d s =
           Returns (s\<lparr>notifications :=
                        (if length (notifications s) \<ge> 10
                         then take 10 (entry clk n # notifications s)
                         else entry clk n # notifications s),
                      timeouts := timeouts s
                        @ [(next_handle s, now clk + 5000, RemoveNotification n)],
                      next_handle := Suc (next_handle s)\<rparr>)))"
proof -
  obtain kvs where d: "d = Obj kvs"
    using assms by (cases d) auto
  have r: "handleRealTimeUpdate clk d s = handleProductUpdated clk (get kvs ''payload'') s"
    using assms by (simp add: d handleRealTimeUpdate_def with_payload_def)
  show ?thesis
    unfolding r handleProductUpdated_cases
    by (auto simp: d addNotification_def setTimeout_def Let_def get_entry_type
             split: sum.splits)
qed

text \<open>The frame for the product Mug, on the mounted component.\<close>

theorem product_updated_effects_witness:
  "getprop product_frame ''type'' = Inr (Str ''product_updated'') \<and>
   realTimeData (state_of (handleRealTimeUpdate noon product_frame mounted))
     = realTimeData mounted \<and>
   chartInstances (state_of (handleRealTimeUpdate noon product_frame mounted))
     = chartInstances mounted \<and>
   systemHealth (state_of (handleRealTimeUpdate noon product_frame mounted))
     = systemHealth mounted \<and>
   (\<exists>s'. handleRealTimeUpdate noon product_frame mounted = Returns s')"
proof -
  have h: "getprop product_frame ''type'' = Inr (Str ''product_updated'')"
    by (simp add: product_frame_def)
  have "\<exists>p v txt. getprop product_frame ''payload'' = Inr p \<and> getprop p ''name'' = Inr v \<and>
          toString v = Inr txt"
    by (simp add: product_frame_def)
  with product_updated_effects[OF h, of noon mounted] show ?thesis using h by simp
qed

text \<open>
  A product frame without a payload, on a fresh component: the handler throws and the
  state is what it was, so that the queue is still empty and no notification was queued.
\<close>

theorem product_without_payload_throws:
  "ws_onmessage noon (Inr bare_product_frame) fresh = Throws TypeError fresh \<and>
   notifications (state_of (ws_onmessage noon (Inr bare_product_frame) fresh)) = []"
  by (simp add: ws_onmessage_def handleRealTimeUpdate_def with_payload_def
        handleProductUpdated_def bare_product_frame_def fresh_def setup_dashboard_def)

end
